theory Spec2Isabelle
  imports Complex_Main "HOL-Library.Word"
begin

section \<open>The priority sampling engine of the trace agent\<close>

text \<open>
  This theory embeds \<^verbatim>\<open>pkg/trace/sampler/prioritysampler.go\<close>: the functions
  \<^verbatim>\<open>Sample\<close> and \<^verbatim>\<open>applyRate\<close> of \<^verbatim>\<open>PriorityEngine\<close>, with the
  data they read and write.

  Conventions of the embedding:
  \<^item> A Go \<^verbatim>\<open>float64\<close> is a \<open>real\<close>. The code only compares and stores these numbers,
    it does no arithmetic on them, and on finite values the comparisons of \<^verbatim>\<open>float64\<close>
    and of \<open>real\<close> agree (the double nearest to \<^verbatim>\<open>0.3\<close> lies below \<open>3/10\<close> and its
    successor above, so a double exceeds the one exactly when it exceeds the other).
  \<^item> A \<^verbatim>\<open>*pb.Span\<close> is an address into a store of spans; an address the store does
    not map stands for \<^verbatim>\<open>nil\<close>, and reading through it is the run-time panic of Go,
    returned as \<open>Inl NilPointerDereference\<close>.
  \<^item> Each span owns its metric map (no two spans share one Go map object), so the map is
    a field of the span.
  \<^item> The engine is passed in and returned: the mutation of the catalog and of the
    sampler's counters is explicit.
\<close>

subsection \<open>Constants\<close>

definition deprecatedRateKey :: string where
  "deprecatedRateKey = ''_sampling_priority_rate_v1''"

definition agentRateKey :: string where
  "agentRateKey = ''_dd.agent_psr''"

definition ruleRateKey :: string where
  "ruleRateKey = ''_dd.rule_psr''"

definition prioritySamplingRateThresholdTo1 :: real where
  "prioritySamplingRateThresholdTo1 = 3 / 10"

text \<open>
  Modelled from the spec: the name of the metric that carries the client's sampling
  priority is declared in a file outside the sources at hand. No statement below depends
  on its spelling.
\<close>

definition KeySamplingPriority :: string where
  "KeySamplingPriority = ''_sampling_priority_v1''"

subsection \<open>Spans and the store\<close>

text \<open>
  Of \<^verbatim>\<open>pb.Span\<close> the engine reads \<^verbatim>\<open>Service\<close>, \<^verbatim>\<open>ParentID\<close> (a \<^verbatim>\<open>uint64\<close>) and
  \<^verbatim>\<open>Metrics\<close> (a \<^verbatim>\<open>map[string]float64\<close>, where \<^verbatim>\<open>nil\<close> and the empty map read
  alike). The remaining fields of a span live in the extension of the record, so every
  statement about \<open>'a Span_scheme\<close> covers them.
\<close>

record Span =
  Service :: string
  ParentID :: "64 word"
  Metrics :: "string \<rightharpoonup> real"

type_synonym 'a store = "nat \<rightharpoonup> 'a Span_scheme"

type_synonym Trace = "nat list"

datatype error = NilPointerDereference

text \<open>
  Modelled from the spec: \<^verbatim>\<open>getMetric\<close> and \<^verbatim>\<open>setMetric\<close> are declared outside the
  sources at hand. The spec describes reading a metric as a lookup in the span's metric
  map, and \<open>applyRate\<close> receives a value and a found flag, of which it uses the flag
  only. Writing a metric stores the value under the key.
\<close>

definition getMetric :: "'a Span_scheme \<Rightarrow> string \<Rightarrow> real \<times> bool" where
  "getMetric s k = (case Metrics s k of None \<Rightarrow> (0, False) | Some val \<Rightarrow> (val, True))"

definition setMetric :: "'a Span_scheme \<Rightarrow> string \<Rightarrow> real \<Rightarrow> 'a Span_scheme" where
  "setMetric s key val = s\<lparr>Metrics := (Metrics s)(key \<mapsto> val)\<rparr>"

text \<open>
  Modelled from the spec: \<^verbatim>\<open>GetSamplingPriority\<close> is declared outside the sources at
  hand. By the spec (sections 6 and 7) reading the client's priority is a lookup in the
  root's metric map, and a missing priority metric is treated as no priority set, which
  is the negative-priority branch. \<open>Sample\<close> keeps the number and discards the found
  flag, so the number returned for a missing metric is negative. The spec names no
  particular number; the model returns \<open>- 1\<close>, and \<open>Sample\<close> only inspects its sign.
  A metric that is present is returned as it is.
\<close>

definition GetSamplingPriority :: "'a Span_scheme \<Rightarrow> real \<times> bool" where
  "GetSamplingPriority s =
     (case Metrics s KeySamplingPriority of None \<Rightarrow> (- 1, False) | Some p \<Rightarrow> (p, True))"

subsection \<open>The signature catalog\<close>

type_synonym Signature = nat

datatype ServiceSignature = ServiceSignature string string

text \<open>
  Modelled from the spec: the catalog (\<^verbatim>\<open>serviceKeyCatalog\<close>, \<^verbatim>\<open>newServiceLookup\<close>,
  \<^verbatim>\<open>register\<close>) is declared outside the sources at hand. By the spec, \<^verbatim>\<open>register\<close>
  returns the identifier of a pair seen before and otherwise allocates and stores a new
  one, never reused for a different pair. The spec leaves the numbering opaque; the model
  hands out the least number above all those stored.
\<close>

type_synonym serviceKeyCatalog = "(ServiceSignature \<times> Signature) list"

definition newServiceLookup :: serviceKeyCatalog where
  "newServiceLookup = []"

fun nextSignature :: "serviceKeyCatalog \<Rightarrow> Signature" where
  "nextSignature [] = 0"
| "nextSignature ((k, v) # cat) = max (Suc v) (nextSignature cat)"

definition register :: "serviceKeyCatalog \<Rightarrow> ServiceSignature \<Rightarrow> Signature \<times> serviceKeyCatalog" where
  "register cat svcSig =
     (case map_of cat svcSig of
        Some sig \<Rightarrow> (sig, cat)
      | None \<Rightarrow> (nextSignature cat, cat @ [(svcSig, nextSignature cat)]))"

subsection \<open>The sampler\<close>

text \<open>
  Modelled from the spec: the sampler core (\<^verbatim>\<open>Sampler\<close>, its \<^verbatim>\<open>Backend\<close>,
  \<^verbatim>\<open>newSampler\<close>, \<^verbatim>\<open>setRateThresholdTo1\<close>, \<^verbatim>\<open>CountSignature\<close>, \<^verbatim>\<open>CountSample\<close>) is
  declared outside the sources at hand. By the spec, \<^verbatim>\<open>CountSignature\<close> increments the
  counter of one signature and \<^verbatim>\<open>CountSample\<close> increments a separate global counter of
  sampled traces. A signature never counted reads \<open>0\<close>.
\<close>

record Backend =
  scores :: "Signature \<Rightarrow> real"
  sampledScore :: real

record Sampler =
  Backend :: Backend
  extraRate :: real
  targetTPS :: real
  rateThresholdTo1 :: real

definition CountSignature :: "Backend \<Rightarrow> Signature \<Rightarrow> Backend" where
  "CountSignature b signature = b\<lparr>scores := (scores b)(signature := scores b signature + 1)\<rparr>"

definition CountSample :: "Backend \<Rightarrow> Backend" where
  "CountSample b = b\<lparr>sampledScore := sampledScore b + 1\<rparr>"

definition newSampler :: "real \<Rightarrow> real \<Rightarrow> Sampler" where
  "newSampler extraRate' targetTPS' =
     \<lparr>Backend = \<lparr>scores = (\<lambda>_. 0), sampledScore = 0\<rparr>,
      extraRate = extraRate', targetTPS = targetTPS', rateThresholdTo1 = 1\<rparr>"

definition setRateThresholdTo1 :: "Sampler \<Rightarrow> real \<Rightarrow> Sampler" where
  "setRateThresholdTo1 smp r = smp\<lparr>rateThresholdTo1 := r\<rparr>"

text \<open>
  \<^verbatim>\<open>GetSignatureSampleRate\<close> is declared outside the sources at hand as well, and the
  spec does not fix the estimate it computes. It is a parameter of \<open>applyRate\<close> and
  \<open>Sample\<close>: a function of the sampler's state and the signature. The statements below
  hold for every such function.
\<close>

type_synonym rateFn = "Sampler \<Rightarrow> Signature \<Rightarrow> real"

subsection \<open>The engine\<close>

text \<open>
  The \<^verbatim>\<open>exit\<close> channel of \<^verbatim>\<open>PriorityEngine\<close> only serves \<^verbatim>\<open>Run\<close> and \<^verbatim>\<open>Stop\<close>
  and is left out.
\<close>

record PriorityEngine =
  Sampler :: Sampler
  rateByService :: "ServiceSignature \<rightharpoonup> real"
  catalog :: serviceKeyCatalog

definition NewPriorityEngine ::
    "real \<Rightarrow> real \<Rightarrow> (ServiceSignature \<rightharpoonup> real) \<Rightarrow> PriorityEngine" where
  "NewPriorityEngine extraRate' targetTPS' rateByService' =
     \<lparr>Sampler = setRateThresholdTo1 (newSampler extraRate' targetTPS')
                  prioritySamplingRateThresholdTo1,
      rateByService = rateByService',
      catalog = newServiceLookup\<rparr>"

definition applyRate ::
    "rateFn \<Rightarrow> PriorityEngine \<Rightarrow> 'a store \<Rightarrow> bool \<Rightarrow> nat \<Rightarrow> Signature \<Rightarrow> error + 'a store" where
  "applyRate GetSignatureSampleRate s h sampled root' signature =
     (case h root' of
        None \<Rightarrow> Inl NilPointerDereference
      | Some r \<Rightarrow>
          if ParentID r \<noteq> 0 then Inr h
          else if snd (getMetric r agentRateKey) then Inr h
          else if snd (getMetric r ruleRateKey) then Inr h
          else if \<not> snd (getMetric r deprecatedRateKey) then
            (let rate = GetSignatureSampleRate (Sampler s) signature;
                 rate = (if rate > prioritySamplingRateThresholdTo1 then 1 else rate)
             in Inr (h(root' \<mapsto> setMetric r deprecatedRateKey rate)))
          else Inr h)"

definition Sample ::
    "rateFn \<Rightarrow> PriorityEngine \<Rightarrow> 'a store \<Rightarrow> Trace \<Rightarrow> nat \<Rightarrow> string
       \<Rightarrow> error + (bool \<times> PriorityEngine \<times> 'a store)" where
  "Sample GetSignatureSampleRate s h trace root' env =
     (if length trace = 0 then Inr (False, s, h)
      else
        (case h root' of
           None \<Rightarrow> Inl NilPointerDereference
         | Some r \<Rightarrow>
             (let samplingPriority = fst (GetSamplingPriority r);
                  sampled = (samplingPriority > 0)
              in if samplingPriority < 0 then Inr (sampled, s, h)
                 else if samplingPriority > 1 then Inr (sampled, s, h)
                 else
                   (let (signature, cat) = register (catalog s) (ServiceSignature (Service r) env);
                        s = s\<lparr>catalog := cat\<rparr>;
                        s = s\<lparr>Sampler := (Sampler s)\<lparr>Backend := CountSignature (Backend (Sampler s)) signature\<rparr>\<rparr>
                    in if sampled then
                         (case applyRate GetSignatureSampleRate s h sampled root' signature of
                            Inl e \<Rightarrow> Inl e
                          | Inr h' \<Rightarrow>
                              Inr (sampled,
                                   s\<lparr>Sampler := (Sampler s)\<lparr>Backend := CountSample (Backend (Sampler s))\<rparr>\<rparr>,
                                   h'))
                       else Inr (sampled, s, h)))))"

text \<open>
  A sequence of calls of \<open>applyRate\<close> on one root pointer, each with its own engine
  state, decision and signature; a panic ends the sequence. This is not a function of the
  program: it states what "repeated calls" means.
\<close>

fun applyRate_calls ::
    "rateFn \<Rightarrow> (PriorityEngine \<times> bool \<times> Signature) list \<Rightarrow> 'a store \<Rightarrow> nat \<Rightarrow> error + 'a store" where
  "applyRate_calls g [] h root' = Inr h"
| "applyRate_calls g ((s, sampled, signature) # calls) h root' =
     (case applyRate g s h sampled root' signature of
        Inl e \<Rightarrow> Inl e
      | Inr h' \<Rightarrow> applyRate_calls g calls h' root')"

subsection \<open>Fixtures for concrete runs\<close>

definition constRate :: "real \<Rightarrow> rateFn" where
  "constRate c smp signature = c"

definition engine0 :: PriorityEngine where
  "engine0 = NewPriorityEngine 1 10 Map.empty"

definition span_with :: "(string \<rightharpoonup> real) \<Rightarrow> Span" where
  "span_with m = \<lparr>Service = ''web'', ParentID = 0, Metrics = m\<rparr>"

definition child_with :: "(string \<rightharpoonup> real) \<Rightarrow> Span" where
  "child_with m = \<lparr>Service = ''web'', ParentID = 5, Metrics = m\<rparr>"

definition store1 :: "Span \<Rightarrow> unit store" where
  "store1 sp = [0 \<mapsto> sp]"

definition store2 :: "Span \<Rightarrow> Span \<Rightarrow> unit store" where
  "store2 sp sp' = [0 \<mapsto> sp, 1 \<mapsto> sp']"

lemmas fixture_defs = store1_def span_with_def engine0_def
  NewPriorityEngine_def newServiceLookup_def newSampler_def setRateThresholdTo1_def
  constRate_def prioritySamplingRateThresholdTo1_def

lemmas model_defs = Sample_def applyRate_def GetSamplingPriority_def getMetric_def
  setMetric_def register_def CountSignature_def CountSample_def

lemmas key_defs = KeySamplingPriority_def deprecatedRateKey_def agentRateKey_def ruleRateKey_def

section \<open>Unfolding the two functions\<close>

lemma nextSignature_above: "(k, v) \<in> set cat \<Longrightarrow> v < nextSignature cat"
  by (induction cat rule: nextSignature.induct) auto

lemma nextSignature_fresh: "nextSignature cat \<notin> snd ` set cat"
  using nextSignature_above by fastforce

lemma applyRate_unfold:
  "h root' = Some r \<Longrightarrow>
   applyRate g s h sampled root' signature =
     (if ParentID r = 0 \<and> Metrics r agentRateKey = None \<and> Metrics r ruleRateKey = None
         \<and> Metrics r deprecatedRateKey = None
      then Inr (h(root' \<mapsto> r\<lparr>Metrics := (Metrics r)(deprecatedRateKey \<mapsto>
                  (if 3 / 10 < g (Sampler s) signature then 1 else g (Sampler s) signature))\<rparr>))
      else Inr h)"
  by (simp add: applyRate_def getMetric_def setMetric_def prioritySamplingRateThresholdTo1_def
      Let_def split: option.split)

lemma Sample_running:
  "trace \<noteq> [] \<Longrightarrow> h root' = Some r \<Longrightarrow>
   Sample g s h trace root' env =
     (let p = fst (GetSamplingPriority r) in
      if p < 0 \<or> 1 < p then Inr (0 < p, s, h)
      else
        (let signature = fst (register (catalog s) (ServiceSignature (Service r) env));
             s1 = s\<lparr>catalog := snd (register (catalog s) (ServiceSignature (Service r) env)),
                    Sampler := (Sampler s)\<lparr>Backend := CountSignature (Backend (Sampler s)) signature\<rparr>\<rparr>
         in if 0 < p then
              (case applyRate g s1 h True root' signature of
                 Inl e \<Rightarrow> Inl e
               | Inr h' \<Rightarrow> Inr (True, s1\<lparr>Sampler := (Sampler s1)\<lparr>Backend := CountSample (Backend (Sampler s1))\<rparr>\<rparr>, h'))
            else Inr (False, s1, h)))"
  by (simp add: Sample_def Let_def split: prod.split sum.split)

lemma register_fresh:
  "map_of cat k = None \<Longrightarrow> register cat k = (nextSignature cat, cat @ [(k, nextSignature cat)])"
  by (simp add: register_def)

lemma GetSamplingPriority_missing:
  "Metrics r KeySamplingPriority = None \<Longrightarrow> GetSamplingPriority r = (- 1, False)"
  by (simp add: GetSamplingPriority_def)

lemma GetSamplingPriority_present:
  "Metrics r KeySamplingPriority = Some p \<Longrightarrow> GetSamplingPriority r = (p, True)"
  by (simp add: GetSamplingPriority_def)

lemma applyRate_kept:
  "h root' = Some r \<Longrightarrow>
   Metrics r agentRateKey \<noteq> None \<or> Metrics r ruleRateKey \<noteq> None \<or> Metrics r deprecatedRateKey \<noteq> None
     \<or> ParentID r \<noteq> 0 \<Longrightarrow>
   applyRate g s h sampled root' signature = Inr h"
  by (auto simp add: applyRate_unfold)

lemma applyRate_calls_kept:
  "h root' = Some r \<Longrightarrow>
   Metrics r agentRateKey \<noteq> None \<or> Metrics r ruleRateKey \<noteq> None \<or> Metrics r deprecatedRateKey \<noteq> None
     \<or> ParentID r \<noteq> 0 \<Longrightarrow>
   applyRate_calls g calls h root' = Inr h"
  by (induction calls) (auto simp add: applyRate_kept)

lemma applyRate_settles:
  assumes "h root' = Some r"
  shows "\<exists>h' r'. applyRate g s h sampled root' signature = Inr h' \<and> h' root' = Some r' \<and>
           (Metrics r' agentRateKey \<noteq> None \<or> Metrics r' ruleRateKey \<noteq> None
            \<or> Metrics r' deprecatedRateKey \<noteq> None \<or> ParentID r' \<noteq> 0)"
  using assms by (auto simp add: applyRate_unfold)

section \<open>Empty traces\<close>

text \<open>
  C8. For an empty trace \<open>Sample\<close> returns \<open>False\<close> and has no effect, whatever the
  root pointer (also \<^verbatim>\<open>nil\<close>) and the environment are: the engine (catalog and all
  counters) and the store of spans come back as they were.
\<close>

theorem Sample_empty_trace:
  "length trace = 0 \<Longrightarrow> Sample g s h trace root' env = Inr (False, s, h)"
  by (simp add: Sample_def)

theorem Sample_empty_trace_witness:
  "length ([] :: Trace) = 0 \<and>
   Sample (constRate (1/2)) engine0 (Map.empty :: unit store) [] 7 ''prod''
     = Inr (False, engine0, Map.empty)"
  using Sample_empty_trace [of "[]" "constRate (1/2)" engine0 "Map.empty :: unit store" 7 "''prod''"]
  by simp

section \<open>Priorities outside the feedback loop\<close>

text \<open>
  C6. For a non-empty trace whose root span carries a strictly negative sampling
  priority, \<open>Sample\<close> returns \<open>False\<close>; the engine comes back as it was (no signature
  is registered, the catalog keeps its size, no score and no sampled counter changes),
  and so does the store of spans.
\<close>

theorem Sample_negative_priority:
  "trace \<noteq> [] \<Longrightarrow> h root' = Some r \<Longrightarrow> fst (GetSamplingPriority r) < 0 \<Longrightarrow>
   Sample g s h trace root' env = Inr (False, s, h)"
  by (simp add: Sample_def)

theorem Sample_negative_priority_witness:
  "[0] \<noteq> ([] :: Trace) \<and>
   store1 (span_with [KeySamplingPriority \<mapsto> - 1]) 0 = Some (span_with [KeySamplingPriority \<mapsto> - 1]) \<and>
   fst (GetSamplingPriority (span_with [KeySamplingPriority \<mapsto> - 1])) < 0 \<and>
   Sample (constRate (1/2)) engine0 (store1 (span_with [KeySamplingPriority \<mapsto> - 1])) [0] 0 ''prod''
     = Inr (False, engine0, store1 (span_with [KeySamplingPriority \<mapsto> - 1]))"
  using Sample_negative_priority [of "[0]" "store1 (span_with [KeySamplingPriority \<mapsto> - 1])" 0
      "span_with [KeySamplingPriority \<mapsto> - 1]" "constRate (1/2)" engine0 "''prod''"]
  by (simp add: store1_def span_with_def GetSamplingPriority_def getMetric_def)

text \<open>
  C7. For a non-empty trace whose root span carries a sampling priority strictly above
  \<open>1\<close>, \<open>Sample\<close> returns \<open>True\<close>; the engine comes back as it was (no signature is
  registered, nothing is counted), and the store of spans is unchanged, so the root is
  not annotated.
\<close>

theorem Sample_priority_above_one:
  "trace \<noteq> [] \<Longrightarrow> h root' = Some r \<Longrightarrow> 1 < fst (GetSamplingPriority r) \<Longrightarrow>
   Sample g s h trace root' env = Inr (True, s, h)"
  by (simp add: Sample_def)

theorem Sample_priority_above_one_witness:
  "[0] \<noteq> ([] :: Trace) \<and>
   store1 (span_with [KeySamplingPriority \<mapsto> 2]) 0 = Some (span_with [KeySamplingPriority \<mapsto> 2]) \<and>
   1 < fst (GetSamplingPriority (span_with [KeySamplingPriority \<mapsto> 2])) \<and>
   Sample (constRate (1/2)) engine0 (store1 (span_with [KeySamplingPriority \<mapsto> 2])) [0] 0 ''prod''
     = Inr (True, engine0, store1 (span_with [KeySamplingPriority \<mapsto> 2]))"
  using Sample_priority_above_one [of "[0]" "store1 (span_with [KeySamplingPriority \<mapsto> 2])" 0
      "span_with [KeySamplingPriority \<mapsto> 2]" "constRate (1/2)" engine0 "''prod''"]
  by (simp add: store1_def span_with_def GetSamplingPriority_def getMetric_def)

section \<open>A root without a priority metric\<close>

text \<open>
  C2. For a non-empty trace whose root span has no priority metric, \<open>Sample\<close> behaves
  as for an explicit negative priority: it returns \<open>False\<close>, and the engine (catalog,
  scores, sampled counter) and the store of spans come back as they were. The same root
  with any negative priority written on it gives the same decision and the same engine.
  The statement rests on the reader of the priority as the spec describes it.
\<close>

theorem Sample_missing_priority:
  assumes "trace \<noteq> []"
    and "h root' = Some r"
    and "Metrics r KeySamplingPriority = None"
  shows "Sample g s h trace root' env = Inr (False, s, h) \<and>
         (v < 0 \<longrightarrow>
            Sample g s (h(root' \<mapsto> setMetric r KeySamplingPriority v)) trace root' env
              = Inr (False, s, h(root' \<mapsto> setMetric r KeySamplingPriority v)))"
proof (intro conjI impI)
  have "fst (GetSamplingPriority r) < 0"
    using assms(3) by (simp add: GetSamplingPriority_missing)
  with assms(1,2) show "Sample g s h trace root' env = Inr (False, s, h)"
    by (simp add: Sample_running [of trace h root' r] Let_def)
next
  assume neg: "v < 0"
  let ?r = "setMetric r KeySamplingPriority v"
  let ?h = "h(root' \<mapsto> ?r)"
  have "Metrics ?r KeySamplingPriority = Some v"
    by (simp add: setMetric_def)
  then have "fst (GetSamplingPriority ?r) < 0"
    using neg by (simp add: GetSamplingPriority_present)
  moreover have "?h root' = Some ?r" by simp
  ultimately show "Sample g s ?h trace root' env = Inr (False, s, ?h)"
    using assms(1) by (simp add: Sample_running [of trace ?h root' ?r] Let_def)
qed

theorem Sample_missing_priority_witness:
  "[0] \<noteq> ([] :: Trace) \<and>
   store1 (span_with Map.empty) 0 = Some (span_with Map.empty) \<and>
   Metrics (span_with Map.empty) KeySamplingPriority = None \<and>
   Sample (constRate (1/2)) engine0 (store1 (span_with Map.empty)) [0] 0 ''prod''
     = Inr (False, engine0, store1 (span_with Map.empty)) \<and>
   (- 2 :: real) < 0 \<and>
   Sample (constRate (1/2)) engine0
       ((store1 (span_with Map.empty))(0 \<mapsto> setMetric (span_with Map.empty) KeySamplingPriority (- 2)))
       [0] 0 ''prod''
     = Inr (False, engine0,
            (store1 (span_with Map.empty))(0 \<mapsto> setMetric (span_with Map.empty) KeySamplingPriority (- 2)))"
  using Sample_missing_priority [where trace = "[0]" and h = "store1 (span_with Map.empty)"
      and root' = 0 and r = "span_with Map.empty" and s = engine0 and env = "''prod''"
      and g = "constRate (1/2)" and v = "- 2"]
  by (simp add: store1_def span_with_def)

section \<open>The decision\<close>

text \<open>
  C10. The boolean that \<open>Sample\<close> returns depends only on whether the trace is empty and
  on the priority read from the root: two calls that agree on both return the same
  boolean, whatever the two engines (catalogs, scores, counters, configured rates), the
  two rate functions, the two stores and the two environments are. The boolean is
  \<open>True\<close> exactly for a non-empty trace with a positive priority.
\<close>

theorem Sample_decision_by_priority:
  assumes "(trace1 = []) = (trace2 = [])"
    and "trace1 \<noteq> [] \<longrightarrow>
           h1 root1 = Some r1 \<and> h2 root2 = Some r2 \<and>
           fst (GetSamplingPriority r1) = fst (GetSamplingPriority r2)"
  shows "\<exists>b s1' h1' s2' h2'.
           Sample g1 s1 h1 trace1 root1 env1 = Inr (b, s1', h1') \<and>
           Sample g2 s2 h2 trace2 root2 env2 = Inr (b, s2', h2') \<and>
           b = (trace1 \<noteq> [] \<and> 0 < fst (GetSamplingPriority r1))"
proof (cases "trace1 = []")
  case True
  with assms(1) show ?thesis by (auto simp add: Sample_def)
next
  case False
  with assms have t2: "trace2 \<noteq> []" and r1: "h1 root1 = Some r1" and r2: "h2 root2 = Some r2"
    and p: "fst (GetSamplingPriority r2) = fst (GetSamplingPriority r1)"
    by simp_all
  show ?thesis
    using False t2 r1 r2 p
    by (auto simp add: Sample_running [of _ _ _ r1] Sample_running [of _ _ _ r2]
        applyRate_unfold [of _ _ r1] applyRate_unfold [of _ _ r2] Let_def)
qed

theorem Sample_decision_by_priority_witness:
  "(([0] :: Trace) = []) = (([1, 0] :: Trace) = []) \<and>
   store1 (span_with [KeySamplingPriority \<mapsto> 1]) 0 = Some (span_with [KeySamplingPriority \<mapsto> 1]) \<and>
   store2 (span_with Map.empty) (child_with [KeySamplingPriority \<mapsto> 1, agentRateKey \<mapsto> 1/4]) 1
     = Some (child_with [KeySamplingPriority \<mapsto> 1, agentRateKey \<mapsto> 1/4]) \<and>
   fst (GetSamplingPriority (span_with [KeySamplingPriority \<mapsto> 1]))
     = fst (GetSamplingPriority (child_with [KeySamplingPriority \<mapsto> 1, agentRateKey \<mapsto> 1/4])) \<and>
   fst (projr (Sample (constRate (1/2)) engine0
                 (store1 (span_with [KeySamplingPriority \<mapsto> 1])) [0] 0 ''prod'')) = True \<and>
   fst (projr (Sample (constRate (1/10))
                 (engine0\<lparr>catalog := [(ServiceSignature ''db'' ''dev'', 4)]\<rparr>)
                 (store2 (span_with Map.empty) (child_with [KeySamplingPriority \<mapsto> 1, agentRateKey \<mapsto> 1/4]))
                 [1, 0] 1 ''dev'')) = True"
  using Sample_decision_by_priority [where ?trace1.0 = "[0]" and ?trace2.0 = "[1, 0]"
      and ?h1.0 = "store1 (span_with [KeySamplingPriority \<mapsto> 1])" and ?root1.0 = 0
      and ?r1.0 = "span_with [KeySamplingPriority \<mapsto> 1]"
      and ?h2.0 = "store2 (span_with Map.empty) (child_with [KeySamplingPriority \<mapsto> 1, agentRateKey \<mapsto> 1/4])"
      and ?root2.0 = 1
      and ?r2.0 = "child_with [KeySamplingPriority \<mapsto> 1, agentRateKey \<mapsto> 1/4]"
      and ?g1.0 = "constRate (1/2)" and ?g2.0 = "constRate (1/10)"
      and ?s1.0 = engine0 and ?s2.0 = "engine0\<lparr>catalog := [(ServiceSignature ''db'' ''dev'', 4)]\<rparr>"
      and ?env1.0 = "''prod''" and ?env2.0 = "''dev''"]
  by (simp add: fixture_defs store2_def child_with_def model_defs key_defs)

section \<open>Annotating the root\<close>

text \<open>
  C3. On a valid root pointer \<open>applyRate\<close> writes the legacy key
  \<^verbatim>\<open>_sampling_priority_rate_v1\<close> exactly when the root has no parent and carries
  none of the three rate keys. The value written is \<open>1\<close> when the rate that
  \<^verbatim>\<open>GetSignatureSampleRate\<close> computes for the signature exceeds \<open>0.3\<close>, and that raw
  rate otherwise. In every other case the store comes back as it was.
\<close>

theorem applyRate_rounding:
  assumes "h root' = Some r"
  shows "(ParentID r = 0 \<and> Metrics r agentRateKey = None \<and> Metrics r ruleRateKey = None \<and>
          Metrics r deprecatedRateKey = None \<longrightarrow>
            (3 / 10 < g (Sampler s) signature \<longrightarrow>
               applyRate g s h sampled root' signature =
                 Inr (h(root' \<mapsto> r\<lparr>Metrics := (Metrics r)(deprecatedRateKey \<mapsto> 1)\<rparr>))) \<and>
            (\<not> 3 / 10 < g (Sampler s) signature \<longrightarrow>
               applyRate g s h sampled root' signature =
                 Inr (h(root' \<mapsto> r\<lparr>Metrics := (Metrics r)(deprecatedRateKey \<mapsto> g (Sampler s) signature)\<rparr>)))) \<and>
         (\<not> (ParentID r = 0 \<and> Metrics r agentRateKey = None \<and> Metrics r ruleRateKey = None \<and>
             Metrics r deprecatedRateKey = None) \<longrightarrow>
            applyRate g s h sampled root' signature = Inr h)"
  using assms by (simp add: applyRate_unfold [of h root' r])

theorem applyRate_rounding_witness:
  "store1 (span_with Map.empty) 0 = Some (span_with Map.empty) \<and>
   ParentID (span_with Map.empty) = 0 \<and>
   Metrics (span_with Map.empty) agentRateKey = None \<and>
   Metrics (span_with Map.empty) ruleRateKey = None \<and>
   Metrics (span_with Map.empty) deprecatedRateKey = None \<and>
   3 / 10 < constRate (1/2) (Sampler engine0) 0 \<and>
   applyRate (constRate (1/2)) engine0 (store1 (span_with Map.empty)) True 0 0
     = Inr (store1 (span_with [deprecatedRateKey \<mapsto> 1])) \<and>
   \<not> 3 / 10 < constRate (1/5) (Sampler engine0) 0 \<and>
   applyRate (constRate (1/5)) engine0 (store1 (span_with Map.empty)) True 0 0
     = Inr (store1 (span_with [deprecatedRateKey \<mapsto> 1/5]))"
  using applyRate_rounding [where h = "store1 (span_with Map.empty)" and root' = 0
      and r = "span_with Map.empty" and g = "constRate (1/2)" and s = engine0 and signature = 0
      and sampled = True]
    applyRate_rounding [where h = "store1 (span_with Map.empty)" and root' = 0
      and r = "span_with Map.empty" and g = "constRate (1/5)" and s = engine0 and signature = 0
      and sampled = True]
  by (simp add: fixture_defs)

text \<open>
  C4. On a root span that carries \<^verbatim>\<open>_dd.agent_psr\<close> or \<^verbatim>\<open>_dd.rule_psr\<close>, one call of
  \<open>applyRate\<close> and any sequence of calls (with any engine states, decisions and
  signatures) return the store as it was, so the legacy key is neither written nor
  overwritten. The same holds on a root that already carries the legacy key. On every
  valid root a second call changes nothing after the first: twice is once.
\<close>

theorem applyRate_idempotent:
  assumes "h root' = Some r"
  shows "(Metrics r agentRateKey \<noteq> None \<or> Metrics r ruleRateKey \<noteq> None \<longrightarrow>
            applyRate g s h sampled root' signature = Inr h \<and>
            applyRate_calls g calls h root' = Inr h) \<and>
         (Metrics r deprecatedRateKey \<noteq> None \<longrightarrow>
            applyRate g s h sampled root' signature = Inr h \<and>
            applyRate_calls g calls h root' = Inr h) \<and>
         (\<exists>h'. applyRate g s h sampled root' signature = Inr h' \<and>
               applyRate g s2 h' sampled2 root' signature2 = Inr h' \<and>
               applyRate_calls g ((s, sampled, signature) # calls) h root' = Inr h')"
proof (intro conjI impI)
  assume a: "Metrics r agentRateKey \<noteq> None \<or> Metrics r ruleRateKey \<noteq> None"
  show "applyRate g s h sampled root' signature = Inr h"
    using assms a by (auto simp add: applyRate_kept)
  show "applyRate_calls g calls h root' = Inr h"
    using assms a by (auto simp add: applyRate_calls_kept)
next
  assume a: "Metrics r deprecatedRateKey \<noteq> None"
  show "applyRate g s h sampled root' signature = Inr h"
    using assms a by (auto simp add: applyRate_kept)
  show "applyRate_calls g calls h root' = Inr h"
    using assms a by (auto simp add: applyRate_calls_kept)
next
  obtain h' r' where 1: "applyRate g s h sampled root' signature = Inr h'"
    and r': "h' root' = Some r'"
    and k: "Metrics r' agentRateKey \<noteq> None \<or> Metrics r' ruleRateKey \<noteq> None
            \<or> Metrics r' deprecatedRateKey \<noteq> None \<or> ParentID r' \<noteq> 0"
    using applyRate_settles [of h root' r g s sampled signature] assms by blast
  have 2: "applyRate g s2 h' sampled2 root' signature2 = Inr h'"
    using applyRate_kept [of h' root' r' g s2 sampled2 signature2] r' k by blast
  have 3: "applyRate_calls g calls h' root' = Inr h'"
    using applyRate_calls_kept [of h' root' r' g calls] r' k by blast
  show "\<exists>h'. applyRate g s h sampled root' signature = Inr h' \<and>
               applyRate g s2 h' sampled2 root' signature2 = Inr h' \<and>
               applyRate_calls g ((s, sampled, signature) # calls) h root' = Inr h'"
    using 1 2 3 by simp
qed

theorem applyRate_idempotent_witness:
  "store1 (span_with [agentRateKey \<mapsto> 1/4]) 0 = Some (span_with [agentRateKey \<mapsto> 1/4]) \<and>
   Metrics (span_with [agentRateKey \<mapsto> 1/4]) agentRateKey \<noteq> None \<and>
   Metrics (span_with [agentRateKey \<mapsto> 1/4]) deprecatedRateKey = None \<and>
   applyRate (constRate (1/2)) engine0 (store1 (span_with [agentRateKey \<mapsto> 1/4])) True 0 0
     = Inr (store1 (span_with [agentRateKey \<mapsto> 1/4])) \<and>
   applyRate_calls (constRate (1/2)) [(engine0, True, 0), (engine0, False, 3), (engine0, True, 0)]
       (store1 (span_with [agentRateKey \<mapsto> 1/4])) 0
     = Inr (store1 (span_with [agentRateKey \<mapsto> 1/4]))"
  using applyRate_idempotent [where h = "store1 (span_with [agentRateKey \<mapsto> 1/4])" and root' = 0
      and r = "span_with [agentRateKey \<mapsto> 1/4]" and g = "constRate (1/2)" and s = engine0
      and sampled = True and signature = 0
      and calls = "[(engine0, True, 0), (engine0, False, 3), (engine0, True, 0)]"
      and ?s2.0 = engine0 and ?sampled2.0 = True and ?signature2.0 = 0]
  by (simp add: store1_def span_with_def key_defs del: applyRate_calls.simps)

section \<open>Priority one on a pair the catalog has not seen\<close>

text \<open>
  C1, as amended. For a non-empty trace whose root span has priority exactly \<open>1\<close> and
  a pair of service and environment that the catalog does not hold, whatever parent and
  rate keys the root has: \<open>Sample\<close> returns \<open>True\<close>; the catalog gains exactly one
  entry, binding the pair to a signature no other pair has; the score of that signature
  goes up by one and no other score changes; the sampled counter goes up by one. The
  legacy key is written on the root exactly when the root has no parent and carries
  neither \<^verbatim>\<open>_dd.agent_psr\<close> nor \<^verbatim>\<open>_dd.rule_psr\<close> nor the legacy key itself; the value
  is the rate computed after the signature has been counted, rounded to \<open>1\<close> above
  \<open>0.3\<close>. In every other case the store of spans is left as it was.
\<close>

theorem Sample_priority_one_fresh:
  assumes "trace \<noteq> []"
    and "h root' = Some r"
    and "fst (GetSamplingPriority r) = 1"
    and "map_of (catalog s) (ServiceSignature (Service r) env) = None"
  shows "\<exists>s' h' signature.
           Sample g s h trace root' env = Inr (True, s', h') \<and>
           catalog s' = catalog s @ [(ServiceSignature (Service r) env, signature)] \<and>
           length (catalog s') = Suc (length (catalog s)) \<and>
           signature \<notin> snd ` set (catalog s) \<and>
           map_of (catalog s') (ServiceSignature (Service r) env) = Some signature \<and>
           (\<forall>k. k \<noteq> ServiceSignature (Service r) env \<longrightarrow> map_of (catalog s') k = map_of (catalog s) k) \<and>
           scores (Backend (Sampler s')) signature = scores (Backend (Sampler s)) signature + 1 \<and>
           (\<forall>x. x \<noteq> signature \<longrightarrow> scores (Backend (Sampler s')) x = scores (Backend (Sampler s)) x) \<and>
           sampledScore (Backend (Sampler s')) = sampledScore (Backend (Sampler s)) + 1 \<and>
           (ParentID r = 0 \<and> Metrics r agentRateKey = None \<and> Metrics r ruleRateKey = None \<and>
            Metrics r deprecatedRateKey = None \<longrightarrow>
              h' = h(root' \<mapsto> r\<lparr>Metrics := (Metrics r)(deprecatedRateKey \<mapsto>
                     (if 3 / 10 < g ((Sampler s)\<lparr>Backend := CountSignature (Backend (Sampler s)) signature\<rparr>) signature
                      then 1
                      else g ((Sampler s)\<lparr>Backend := CountSignature (Backend (Sampler s)) signature\<rparr>) signature))\<rparr>)) \<and>
           (\<not> (ParentID r = 0 \<and> Metrics r agentRateKey = None \<and> Metrics r ruleRateKey = None \<and>
               Metrics r deprecatedRateKey = None) \<longrightarrow> h' = h)"
proof -
  let ?k = "ServiceSignature (Service r) env"
  let ?sig = "nextSignature (catalog s)"
  let ?s1 = "s\<lparr>catalog := catalog s @ [(?k, ?sig)],
               Sampler := (Sampler s)\<lparr>Backend := CountSignature (Backend (Sampler s)) ?sig\<rparr>\<rparr>"
  let ?s' = "?s1\<lparr>Sampler := (Sampler ?s1)\<lparr>Backend := CountSample (Backend (Sampler ?s1))\<rparr>\<rparr>"
  let ?raw = "g (Sampler ?s1) ?sig"
  let ?w = "ParentID r = 0 \<and> Metrics r agentRateKey = None \<and> Metrics r ruleRateKey = None \<and>
            Metrics r deprecatedRateKey = None"
  let ?h' = "if ?w
             then h(root' \<mapsto> r\<lparr>Metrics := (Metrics r)(deprecatedRateKey \<mapsto>
                    (if 3 / 10 < ?raw then 1 else ?raw))\<rparr>)
             else h"
  have reg: "register (catalog s) ?k = (?sig, catalog s @ [(?k, ?sig)])"
    using assms(4) by (rule register_fresh)
  have ap: "applyRate g ?s1 h True root' ?sig = Inr ?h'"
    using assms(2) by (simp add: applyRate_unfold [of h root' r])
  have run: "Sample g s h trace root' env = Inr (True, ?s', ?h')"
    using assms(1,2,3) by (simp add: Sample_running [of trace h root' r] reg ap Let_def)
  have fresh: "?sig \<notin> snd ` set (catalog s)"
    by (rule nextSignature_fresh)
  have look: "map_of (catalog s @ [(?k, ?sig)]) ?k = Some ?sig"
    using assms(4) by (simp add: map_add_def)
  have others: "\<forall>k. k \<noteq> ?k \<longrightarrow> map_of (catalog s @ [(?k, ?sig)]) k = map_of (catalog s) k"
    by (simp add: map_add_def split: option.split)
  show ?thesis
    by (rule exI [of _ ?s'], rule exI [of _ ?h'], rule exI [of _ ?sig])
       (use run fresh look others in \<open>simp add: CountSignature_def CountSample_def\<close>)
qed

theorem Sample_priority_one_fresh_witness:
  "[0] \<noteq> ([] :: Trace) \<and>
   store1 (span_with [KeySamplingPriority \<mapsto> 1]) 0 = Some (span_with [KeySamplingPriority \<mapsto> 1]) \<and>
   fst (GetSamplingPriority (span_with [KeySamplingPriority \<mapsto> 1])) = 1 \<and>
   map_of (catalog engine0) (ServiceSignature (Service (span_with [KeySamplingPriority \<mapsto> 1])) ''prod'') = None \<and>
   ParentID (span_with [KeySamplingPriority \<mapsto> 1]) = 0 \<and>
   Metrics (span_with [KeySamplingPriority \<mapsto> 1]) agentRateKey = None \<and>
   Metrics (span_with [KeySamplingPriority \<mapsto> 1]) ruleRateKey = None \<and>
   Metrics (span_with [KeySamplingPriority \<mapsto> 1]) deprecatedRateKey = None \<and>
   Sample (constRate (1/2)) engine0 (store1 (span_with [KeySamplingPriority \<mapsto> 1])) [0] 0 ''prod'' =
     Inr (True,
          engine0\<lparr>catalog := [(ServiceSignature ''web'' ''prod'', 0)],
                  Sampler := (Sampler engine0)\<lparr>Backend :=
                    CountSample (CountSignature (Backend (Sampler engine0)) 0)\<rparr>\<rparr>,
          store1 (span_with [KeySamplingPriority \<mapsto> 1, deprecatedRateKey \<mapsto> 1])) \<and>
   store1 (span_with [KeySamplingPriority \<mapsto> 1, agentRateKey \<mapsto> 1/4]) 0
     = Some (span_with [KeySamplingPriority \<mapsto> 1, agentRateKey \<mapsto> 1/4]) \<and>
   fst (GetSamplingPriority (span_with [KeySamplingPriority \<mapsto> 1, agentRateKey \<mapsto> 1/4])) = 1 \<and>
   Metrics (span_with [KeySamplingPriority \<mapsto> 1, agentRateKey \<mapsto> 1/4]) agentRateKey \<noteq> None \<and>
   Sample (constRate (1/2)) engine0
       (store1 (span_with [KeySamplingPriority \<mapsto> 1, agentRateKey \<mapsto> 1/4])) [0] 0 ''prod'' =
     Inr (True,
          engine0\<lparr>catalog := [(ServiceSignature ''web'' ''prod'', 0)],
                  Sampler := (Sampler engine0)\<lparr>Backend :=
                    CountSample (CountSignature (Backend (Sampler engine0)) 0)\<rparr>\<rparr>,
          store1 (span_with [KeySamplingPriority \<mapsto> 1, agentRateKey \<mapsto> 1/4]))"
  using Sample_priority_one_fresh [where trace = "[0]"
      and h = "store1 (span_with [KeySamplingPriority \<mapsto> 1])" and root' = 0
      and r = "span_with [KeySamplingPriority \<mapsto> 1]" and s = engine0 and env = "''prod''"
      and g = "constRate (1/2)"]
    Sample_priority_one_fresh [where trace = "[0]"
      and h = "store1 (span_with [KeySamplingPriority \<mapsto> 1, agentRateKey \<mapsto> 1/4])" and root' = 0
      and r = "span_with [KeySamplingPriority \<mapsto> 1, agentRateKey \<mapsto> 1/4]" and s = engine0
      and env = "''prod''" and g = "constRate (1/2)"]
  by (simp add: fixture_defs model_defs key_defs)

text \<open>
  The legacy key is not written on every root that has no parent and neither of the two
  newer keys: a root that already carries the legacy key, here with the value \<open>0.7\<close>,
  keeps it, and the store comes back unchanged although the rate at hand would have been
  written as \<open>1\<close>.
\<close>

theorem Sample_priority_one_counterexample:
  "[0] \<noteq> ([] :: Trace) \<and>
   store1 (span_with [KeySamplingPriority \<mapsto> 1, deprecatedRateKey \<mapsto> 7/10]) 0
     = Some (span_with [KeySamplingPriority \<mapsto> 1, deprecatedRateKey \<mapsto> 7/10]) \<and>
   fst (GetSamplingPriority (span_with [KeySamplingPriority \<mapsto> 1, deprecatedRateKey \<mapsto> 7/10])) = 1 \<and>
   map_of (catalog engine0)
     (ServiceSignature (Service (span_with [KeySamplingPriority \<mapsto> 1, deprecatedRateKey \<mapsto> 7/10])) ''prod'')
     = None \<and>
   ParentID (span_with [KeySamplingPriority \<mapsto> 1, deprecatedRateKey \<mapsto> 7/10]) = 0 \<and>
   Metrics (span_with [KeySamplingPriority \<mapsto> 1, deprecatedRateKey \<mapsto> 7/10]) agentRateKey = None \<and>
   Metrics (span_with [KeySamplingPriority \<mapsto> 1, deprecatedRateKey \<mapsto> 7/10]) ruleRateKey = None \<and>
   fst (projr (Sample (constRate (1/2)) engine0
       (store1 (span_with [KeySamplingPriority \<mapsto> 1, deprecatedRateKey \<mapsto> 7/10])) [0] 0 ''prod'')) = True \<and>
   snd (snd (projr (Sample (constRate (1/2)) engine0
       (store1 (span_with [KeySamplingPriority \<mapsto> 1, deprecatedRateKey \<mapsto> 7/10])) [0] 0 ''prod'')))
     = store1 (span_with [KeySamplingPriority \<mapsto> 1, deprecatedRateKey \<mapsto> 7/10])"
  by (simp add: fixture_defs model_defs key_defs)

section \<open>What a call may change\<close>

text \<open>
  C5. A call of \<open>Sample\<close> either panics, which happens only for a non-empty trace with
  a \<^verbatim>\<open>nil\<close> root, or returns a store that agrees with the old one at every address
  other than the root pointer; at the root pointer the store is either unchanged or
  differs in the one metric \<^verbatim>\<open>_sampling_priority_rate_v1\<close> of a root without parent.
  On a root that has a parent \<open>applyRate\<close> returns the store as it was.
\<close>

theorem Sample_frame:
  "((trace \<noteq> [] \<and> h root' = None \<and> Sample g s h trace root' env = Inl NilPointerDereference) \<or>
    (\<exists>b s' h'. Sample g s h trace root' env = Inr (b, s', h') \<and>
       (\<forall>a. a \<noteq> root' \<longrightarrow> h' a = h a) \<and>
       (h' = h \<or>
        (\<exists>r v. h root' = Some r \<and> ParentID r = 0 \<and>
               h' = h(root' \<mapsto> r\<lparr>Metrics := (Metrics r)(deprecatedRateKey \<mapsto> v)\<rparr>))))) \<and>
   (hc rootc = Some rc \<and> ParentID rc \<noteq> 0 \<longrightarrow>
      applyRate gc sc hc sampled rootc signature = Inr hc)"
proof (intro conjI impI)
  show "(trace \<noteq> [] \<and> h root' = None \<and> Sample g s h trace root' env = Inl NilPointerDereference) \<or>
    (\<exists>b s' h'. Sample g s h trace root' env = Inr (b, s', h') \<and>
       (\<forall>a. a \<noteq> root' \<longrightarrow> h' a = h a) \<and>
       (h' = h \<or>
        (\<exists>r v. h root' = Some r \<and> ParentID r = 0 \<and>
               h' = h(root' \<mapsto> r\<lparr>Metrics := (Metrics r)(deprecatedRateKey \<mapsto> v)\<rparr>))))"
  proof (cases "trace = []")
    case True
    then show ?thesis by (auto simp add: Sample_def)
  next
    case ne: False
    show ?thesis
    proof (cases "h root'")
      case None
      with ne show ?thesis by (simp add: Sample_def)
    next
      case (Some r)
      with ne show ?thesis
        by (auto simp add: Sample_running [of trace h root' r] applyRate_unfold [of h root' r] Let_def)
    qed
  qed
next
  assume "hc rootc = Some rc \<and> ParentID rc \<noteq> 0"
  then show "applyRate gc sc hc sampled rootc signature = Inr hc"
    by (simp add: applyRate_unfold [of hc rootc rc])
qed

theorem Sample_frame_witness:
  "(1::nat) \<noteq> 0 \<and>
   Sample (constRate (1/2)) engine0
       (store2 (span_with [KeySamplingPriority \<mapsto> 1]) (child_with Map.empty)) [0, 1] 0 ''prod''
     \<noteq> Inl NilPointerDereference \<and>
   snd (snd (projr (Sample (constRate (1/2)) engine0
       (store2 (span_with [KeySamplingPriority \<mapsto> 1]) (child_with Map.empty)) [0, 1] 0 ''prod''))) 1
     = store2 (span_with [KeySamplingPriority \<mapsto> 1]) (child_with Map.empty) 1 \<and>
   snd (snd (projr (Sample (constRate (1/2)) engine0
       (store2 (span_with [KeySamplingPriority \<mapsto> 1]) (child_with Map.empty)) [0, 1] 0 ''prod''))) 0
     = Some (span_with [KeySamplingPriority \<mapsto> 1, deprecatedRateKey \<mapsto> 1]) \<and>
   store2 (span_with [KeySamplingPriority \<mapsto> 1]) (child_with Map.empty) 1 = Some (child_with Map.empty) \<and>
   ParentID (child_with Map.empty) \<noteq> 0 \<and>
   applyRate (constRate (1/2)) engine0
       (store2 (span_with [KeySamplingPriority \<mapsto> 1]) (child_with Map.empty)) True 1 0
     = Inr (store2 (span_with [KeySamplingPriority \<mapsto> 1]) (child_with Map.empty))"
  using Sample_frame [where trace = "[0, 1]"
      and h = "store2 (span_with [KeySamplingPriority \<mapsto> 1]) (child_with Map.empty)"
      and root' = 0 and g = "constRate (1/2)" and s = engine0 and env = "''prod''"
      and hc = "store2 (span_with [KeySamplingPriority \<mapsto> 1]) (child_with Map.empty)"
      and rootc = 1 and rc = "child_with Map.empty" and gc = "constRate (1/2)" and sc = engine0
      and sampled = True and signature = 0]
  by (simp add: fixture_defs store2_def child_with_def model_defs key_defs)

end
